theory Spec2Isabelle
  imports Complex_Main "HOL-Library.Word"
begin

section \<open>Data model\<close>

text \<open>
  The program is the class \<open>EstimateLeafArea\<close> of \<open>LeafCalc.py\<close>. Its two methods,
  \<open>estimate\<close> and \<open>preprocess\<close>, are embedded for a path that \<open>os.path.isfile\<close> accepts
  (the first branch of each method); the directory branch hands the same method to a
  process pool and is outside the embedding.

  Arrays are kept as numpy has them: a shape and the samples read by index. A grayscale
  scan, a binary mask and a label map are two-dimensional, the array returned by
  \<open>cv2.imread\<close> is three-dimensional (rows, columns, the channels b, g, r). Samples are
  unsigned 8-bit values, labels and pixel counts are integers.
\<close>

type_synonym uint8 = "8 word"

record 'a matrix =
  nrows :: nat
  ncols :: nat
  px :: "nat \<Rightarrow> nat \<Rightarrow> 'a"

record bgr_image =
  shape0 :: nat
  shape1 :: nat
  shape2 :: nat
  sample :: "nat \<Rightarrow> nat \<Rightarrow> nat \<Rightarrow> uint8"

text \<open>
  The fields of \<open>self\<close>, as \<open>__init__\<close> sets them (lines 40 to 52). \<open>res\<close> is an integer
  when it comes from the command line and the number stored in the metadata otherwise, so it
  is a real here. An empty \<open>output_dir\<close> is the falsy one.
\<close>

record EstimateLeafArea =
  red_scale :: int
  red_scale_pixels :: int
  mask_pixels :: int
  mask_scale :: int
  mask_offset_y :: int
  mask_offset_x :: int
  threshold :: int
  cut_off :: int
  output_dir :: string
  crop :: int
  combine :: bool
  res :: real
  workers :: int

text \<open>
  Every \<open>raise\<close> of the two methods is a \<open>ValueError\<close> told apart by its message; the
  constructors carry the names of the error taxonomy, one per raise site. No raise site of
  the source answers to \<open>InvalidResolution\<close>; \<open>InvalidInputPath\<close> and
  \<open>OutputDirectoryExists\<close> are raised outside the embedded part. \<open>OSError\<close> is what
  \<open>os.makedirs\<close> raises, \<open>CvError\<close> what \<open>cv2.imwrite\<close> raises on an empty array, and
  \<open>OverflowError\<close> what the division of line 109 raises for an integer that no double
  holds.
\<close>

datatype error =
    MissingMetadata
  | AnisotropicResolution
  | InvalidThreshold
  | InvalidCutoff
  | InvalidResolution
  | NegativeCrop
  | CropExceedsBounds
  | NegativeMaskParameter
  | MaskExceedsBounds
  | ScaleBarExceedsBounds
  | IdenticalSourceDestination
  | InvalidInputPath
  | OutputDirectoryExists
  | OSError
  | CvError
  | OverflowError

text \<open>
  What \<open>estimate\<close> reads from the file: the metadata fields it looks at (lines 67 to 75)
  and the scan after \<open>cv2.imread\<close> and \<open>cv2.cvtColor\<close> (lines 78 to 81). The codec and
  the luma weighting belong to the library and are not embedded.
\<close>

record scan_file =
  has_exif :: bool
  x_resolution :: real
  y_resolution :: real
  gray :: "uint8 matrix"

text \<open>
  The doubles of Python and numpy: the finite values are reals, a result beyond the largest
  double \<open>dbl_max\<close> is an infinity, and a division by zero or by an infinity gives the
  special value IEEE 754 gives. Rounding and underflow are not represented; the summation
  keeps the exact sum of finite values.
\<close>

datatype npfloat = Fin real | PosInf | NegInf | NaN

definition dbl_max :: real where
  "dbl_max = (2 ^ 53 - 1) * 2 ^ 971"

definition to_double :: "real \<Rightarrow> npfloat" where
  "to_double x = (if dbl_max < x then PosInf else if x < - dbl_max then NegInf else Fin x)"

fun np_div :: "real \<Rightarrow> npfloat \<Rightarrow> npfloat" where
  "np_div a (Fin b) =
     (if b = 0 then (if 0 < a then PosInf else if a < 0 then NegInf else NaN)
      else to_double (a / b))"
| "np_div a PosInf = Fin 0"
| "np_div a NegInf = Fin 0"
| "np_div a NaN = NaN"

fun np_add :: "npfloat \<Rightarrow> npfloat \<Rightarrow> npfloat" where
  "np_add (Fin a) (Fin b) = Fin (a + b)"
| "np_add NaN _ = NaN"
| "np_add _ NaN = NaN"
| "np_add PosInf NegInf = NaN"
| "np_add NegInf PosInf = NaN"
| "np_add PosInf _ = PosInf"
| "np_add _ PosInf = PosInf"
| "np_add NegInf _ = NegInf"
| "np_add _ NegInf = NegInf"

definition np_sum :: "npfloat list \<Rightarrow> npfloat" where
  "np_sum xs = foldl np_add (Fin 0) xs"

type_synonym row = "string \<times> npfloat"

section \<open>Paths\<close>

text \<open>\<open>os.path.split\<close>, \<open>os.path.basename\<close>, \<open>os.path.splitext\<close> and \<open>os.path.join\<close> of posixpath.\<close>

definition path_split :: "string \<Rightarrow> string \<times> string" where
  "path_split p =
     (let tail = rev (takeWhile (\<lambda>c. c \<noteq> CHR ''/'') (rev p));
          head = rev (dropWhile (\<lambda>c. c \<noteq> CHR ''/'') (rev p))
      in (if head \<noteq> [] \<and> filter (\<lambda>c. c \<noteq> CHR ''/'') head \<noteq> []
          then rev (dropWhile (\<lambda>c. c = CHR ''/'') (rev head))
          else head,
          tail))"

definition basename :: "string \<Rightarrow> string" where
  "basename p = snd (path_split p)"

definition splitext_root :: "string \<Rightarrow> string" where
  "splitext_root name =
     (let stem = rev (drop 1 (dropWhile (\<lambda>c. c \<noteq> CHR ''.'') (rev name)))
      in if filter (\<lambda>c. c = CHR ''.'') name \<noteq> [] \<and> filter (\<lambda>c. c \<noteq> CHR ''.'') stem \<noteq> []
         then stem else name)"

definition path_join :: "string \<Rightarrow> string \<Rightarrow> string" where
  "path_join a b =
     (if take 1 b = ''/'' then b
      else if a = [] \<or> take 1 (rev a) = ''/'' then a @ b
      else a @ ''/'' @ b)"

section \<open>estimate\<close>

text \<open>
  \<open>cv2.threshold (src, thresh, maxval, cv2.THRESH_BINARY_INV)\<close>: a sample greater than
  \<open>thresh\<close> becomes 0, every other sample becomes \<open>maxval\<close>.
\<close>

definition cv2_threshold_binary_inv :: "uint8 matrix \<Rightarrow> int \<Rightarrow> uint8 \<Rightarrow> uint8 matrix" where
  "cv2_threshold_binary_inv src thresh maxval =
     src\<lparr>px := (\<lambda>i j. if thresh < uint (px src i j) then 0 else maxval)\<rparr>"

text \<open>Lines 66 to 75: the resolution, written into \<open>self.res\<close> when it is read from the file.\<close>

definition read_resolution :: "EstimateLeafArea \<Rightarrow> scan_file \<Rightarrow> error + EstimateLeafArea" where
  "read_resolution self f =
     (if res self = 0 then
        (if \<not> has_exif f then Inl MissingMetadata
         else if \<not> (x_resolution f = y_resolution f) then Inl AnisotropicResolution
         else Inr (self\<lparr>res := x_resolution f\<rparr>))
      else Inr self)"

text \<open>Lines 84 to 86: the check of the threshold and the classification.\<close>

definition segment :: "int \<Rightarrow> uint8 matrix \<Rightarrow> error + uint8 matrix" where
  "segment t scan =
     (if t < 0 \<or> 255 < t then Inl InvalidThreshold
      else Inr (cv2_threshold_binary_inv scan t 255))"

text \<open>
  \<open>measure.label (scan, background=0)\<close> labels the samples other than 0, so these are the
  foreground of a mask.
\<close>

definition foreground :: "uint8 matrix \<Rightarrow> nat \<Rightarrow> nat \<Rightarrow> bool" where
  "foreground m i j = (px m i j \<noteq> 0)"

text \<open>
  \<open>np.unique (a, return_counts=True)\<close> flattens the array and returns its distinct values
  in ascending order with the number of occurrences of each.
\<close>

definition ravel :: "'a matrix \<Rightarrow> 'a list" where
  "ravel m = concat (map (\<lambda>i. map (\<lambda>j. px m i j) [0..<ncols m]) [0..<nrows m])"

definition np_unique :: "int list \<Rightarrow> int list \<times> int list" where
  "np_unique xs =
     (let u = sort (remdups xs) in (u, map (\<lambda>l. int (count_list xs l)) u))"

text \<open>\<open>mask[sel] = v\<close> and \<open>a[mask]\<close> for boolean arrays of one length.\<close>

definition mask_assign :: "bool list \<Rightarrow> bool list \<Rightarrow> bool \<Rightarrow> bool list" where
  "mask_assign msk sel v = map (\<lambda>(m, s). if s then v else m) (zip msk sel)"

definition bool_index :: "'a list \<Rightarrow> bool list \<Rightarrow> 'a list" where
  "bool_index a msk = map fst (filter snd (zip a msk))"

text \<open>Lines 95 to 106, on the pair that \<open>np.unique\<close> returned.\<close>

definition filter_regions :: "int \<Rightarrow> int list \<times> int list \<Rightarrow> error + int list" where
  "filter_regions cutoff leaflets =
     (let msk = replicate (length (snd leaflets)) True in
      if cutoff < 0 then Inl InvalidCutoff
      else
        let mask1 = mask_assign msk (map (\<lambda>c. c < cutoff) (snd leaflets)) False;
            mask2 = mask_assign mask1 (map (\<lambda>l. l = 0) (fst leaflets)) False
        in Inr (bool_index (snd leaflets) mask2))"

text \<open>
  Lines 109 to 111. A resolution beyond \<open>dbl_max\<close> can only be a Python integer, and
  dividing it by the float 2.54 raises \<open>OverflowError\<close>; otherwise the quotient is
  finite, its square may overflow to an infinity, and the counts are divided by the square.
\<close>

definition convert_areas :: "real \<Rightarrow> int list \<Rightarrow> error + npfloat list" where
  "convert_areas dpi areas =
     (if dbl_max < \<bar>dpi\<bar> then Inl OverflowError
      else
        let r = dpi / 2.54;
            r2 = to_double (r * r)
        in Inr (map (\<lambda>a. np_div (of_int a) r2) areas))"

text \<open>
  The file branch of \<open>estimate\<close> (lines 64 to 121). \<open>label\<close> stands for
  \<open>measure.label\<close> and \<open>expanduser\<close> for \<open>os.path.expanduser\<close>. The result is what the
  call returns or raises, \<open>self\<close> as the call leaves it, and the calls of \<open>cv2.imwrite\<close>
  it made.
\<close>

definition estimate_file ::
  "(uint8 matrix \<Rightarrow> int matrix) \<Rightarrow> (string \<Rightarrow> string) \<Rightarrow> EstimateLeafArea \<Rightarrow> string \<Rightarrow> scan_file
     \<Rightarrow> (error + row list) \<times> EstimateLeafArea \<times> (string \<times> uint8 matrix) list" where
  "estimate_file label expanduser self img f =
     (case read_resolution self f of
        Inl e \<Rightarrow> (Inl e, self, [])
      | Inr self1 \<Rightarrow>
          (case segment (threshold self1) (gray f) of
             Inl e \<Rightarrow> (Inl e, self1, [])
           | Inr scan \<Rightarrow>
               (case filter_regions (cut_off self1) (np_unique (ravel (label scan))) of
                  Inl e \<Rightarrow> (Inl e, self1, [])
                | Inr counts \<Rightarrow>
                    (case convert_areas (res self1) counts of
                       Inl e \<Rightarrow> (Inl e, self1, [])
                     | Inr areas \<Rightarrow>
                         (let written =
                                (if output_dir self1 \<noteq> []
                                 then [(path_join (expanduser (output_dir self1)) (basename img), scan)]
                                 else [])
                          in (Inr (if combine self1 then [(img, np_sum areas)]
                                   else map (\<lambda>a. (img, a)) areas),
                              self1, written))))))"

section \<open>preprocess\<close>

text \<open>
  A basic slice \<open>lo:hi\<close> along an axis of length \<open>n\<close>: a negative bound counts from the
  end, both bounds are clipped to the axis, and a stop at or before the start selects
  nothing.
\<close>

definition slice_index :: "nat \<Rightarrow> int \<Rightarrow> nat" where
  "slice_index n i = (if i < 0 then nat (max 0 (i + int n)) else min (nat i) n)"

definition slice_len :: "nat \<Rightarrow> int \<Rightarrow> int \<Rightarrow> nat" where
  "slice_len n lo hi =
     (if slice_index n lo < slice_index n hi then slice_index n hi - slice_index n lo else 0)"

text \<open>\<open>a[lo0:hi0, lo1:hi1]\<close>\<close>

definition slice2 :: "bgr_image \<Rightarrow> int \<Rightarrow> int \<Rightarrow> int \<Rightarrow> int \<Rightarrow> bgr_image" where
  "slice2 a lo0 hi0 lo1 hi1 =
     \<lparr>shape0 = slice_len (shape0 a) lo0 hi0,
      shape1 = slice_len (shape1 a) lo1 hi1,
      shape2 = shape2 a,
      sample = (\<lambda>i j c. sample a (slice_index (shape0 a) lo0 + i) (slice_index (shape1 a) lo1 + j) c)\<rparr>"

text \<open>\<open>a[lo0:hi0, lo1:hi1, c] = v\<close>\<close>

definition in_slice :: "nat \<Rightarrow> int \<Rightarrow> int \<Rightarrow> nat \<Rightarrow> bool" where
  "in_slice n lo hi i = (slice_index n lo \<le> i \<and> i < slice_index n hi)"

definition assign_window :: "bgr_image \<Rightarrow> int \<Rightarrow> int \<Rightarrow> int \<Rightarrow> int \<Rightarrow> nat \<Rightarrow> uint8 \<Rightarrow> bgr_image" where
  "assign_window a lo0 hi0 lo1 hi1 c v =
     a\<lparr>sample := (\<lambda>i j k. if in_slice (shape0 a) lo0 hi0 i \<and> in_slice (shape1 a) lo1 hi1 j \<and> k = c
                           then v else sample a i j k)\<rparr>"

text \<open>Lines 159 to 164. \<open>dims\<close> is the shape of the array as it was read (line 156).\<close>

definition crop_step :: "EstimateLeafArea \<Rightarrow> nat \<times> nat \<Rightarrow> bgr_image \<Rightarrow> error + bgr_image" where
  "crop_step self dims scan =
     (if crop self \<noteq> 0 then
        (if crop self < 0 then Inl NegativeCrop
         else if int (fst dims) < crop self \<or> int (snd dims) < crop self then Inl CropExceedsBounds
         else Inr (slice2 scan (crop self) (int (fst dims) - crop self)
                                (crop self) (int (snd dims) - crop self)))
      else Inr scan)"

text \<open>Lines 167 to 181.\<close>

definition mask_step :: "EstimateLeafArea \<Rightarrow> nat \<times> nat \<Rightarrow> bgr_image \<Rightarrow> error + bgr_image" where
  "mask_step self dims scan =
     (if mask_scale self \<noteq> 0 then
        (if mask_offset_y self < 0 \<or> mask_offset_x self < 0 \<or> mask_pixels self < 0
         then Inl NegativeMaskParameter
         else if int (fst dims) < mask_offset_y self + mask_pixels self
                 \<or> int (snd dims) < mask_offset_x self + mask_pixels self
         then Inl MaskExceedsBounds
         else
           let y0 = mask_offset_y self; y1 = mask_offset_y self + mask_pixels self;
               x0 = mask_offset_x self; x1 = mask_offset_x self + mask_pixels self;
               scan_b = assign_window scan y0 y1 x0 x1 0 255;
               scan_g = assign_window scan_b y0 y1 x0 x1 1 255;
               scan_r = assign_window scan_g y0 y1 x0 x1 2 255
           in Inr scan_r)
      else Inr scan)"

text \<open>Lines 184 to 189.\<close>

definition red_scale_step :: "EstimateLeafArea \<Rightarrow> nat \<times> nat \<Rightarrow> bgr_image \<Rightarrow> error + bgr_image" where
  "red_scale_step self dims scan =
     (if red_scale self \<noteq> 0 then
        (if int (fst dims) < red_scale_pixels self \<or> int (snd dims) < red_scale_pixels self
         then Inl ScaleBarExceedsBounds
         else
           let n = red_scale_pixels self;
               scan_b = assign_window scan 0 n 0 n 0 0;
               scan_g = assign_window scan_b 0 n 0 n 1 0;
               scan_r = assign_window scan_g 0 n 0 n 2 255
           in Inr scan_r)
      else Inr scan)"

text \<open>
  What \<open>preprocess\<close> asks of the operating system and of OpenCV: tilde expansion, whether
  \<open>os.makedirs\<close> succeeds on a path, and the array \<open>cv2.imread\<close> decodes from a path. The
  calls that reach the file system are recorded in the order they are made.
\<close>

record os_env =
  expanduser :: "string \<Rightarrow> string"
  makedirs_ok :: "string \<Rightarrow> bool"
  imread :: "string \<Rightarrow> bgr_image"

datatype call = MakeDirs string | ImRead string | ImWrite string bgr_image

definition empty_image :: "bgr_image \<Rightarrow> bool" where
  "empty_image a = (shape0 a = 0 \<or> shape1 a = 0 \<or> shape2 a = 0)"

text \<open>
  The file branch of \<open>preprocess\<close> (lines 145 to 197). The directory made at line 148 is
  named by a local variable that nothing reads afterwards. The result is what the call
  raises (or \<open>Inr ()\<close> when it returns) and the calls it made.
\<close>

definition preprocess_file :: "os_env \<Rightarrow> EstimateLeafArea \<Rightarrow> string \<Rightarrow> (error + unit) \<times> call list" where
  "preprocess_file env self img =
     (let src_dir = fst (path_split img);
          made = (if output_dir self = [] then [MakeDirs (src_dir @ ''/preprocessed'')] else [])
      in
        if output_dir self = [] \<and> \<not> makedirs_ok env (src_dir @ ''/preprocessed'')
        then (Inl OSError, [])
        else if src_dir = output_dir self then (Inl IdenticalSourceDestination, made)
        else
          (let path = expanduser env img;
               scan = imread env path;
               dims = (shape0 scan, shape1 scan);
               calls = made @ [ImRead path]
           in case crop_step self dims scan of
                Inl e \<Rightarrow> (Inl e, calls)
              | Inr scan1 \<Rightarrow>
                  (case mask_step self dims scan1 of
                     Inl e \<Rightarrow> (Inl e, calls)
                   | Inr scan2 \<Rightarrow>
                       (case red_scale_step self dims scan2 of
                          Inl e \<Rightarrow> (Inl e, calls)
                        | Inr scan3 \<Rightarrow>
                            (let file_name =
                                   path_join (expanduser env (output_dir self))
                                     (splitext_root (basename img) @ ''.jpg'')
                             in if empty_image scan3 then (Inl CvError, calls)
                                else (Inr (), calls @ [ImWrite file_name scan3]))))))"

section \<open>Concrete inputs\<close>

text \<open>
  Small scans, files, configurations and environments on which the theorems below are
  evaluated. \<open>label_ex\<close> gives the labels of \<open>measure.label\<close> on a mask of one row whose
  foreground samples do not touch.
\<close>

definition gray_120 :: "uint8 matrix" where
  "gray_120 = \<lparr>nrows = 1, ncols = 1, px = (\<lambda>i j. 120)\<rparr>"

definition white_2x2 :: "uint8 matrix" where
  "white_2x2 = \<lparr>nrows = 2, ncols = 2, px = (\<lambda>i j. 255)\<rparr>"

definition label_ex :: "uint8 matrix \<Rightarrow> int matrix" where
  "label_ex m =
     \<lparr>nrows = nrows m, ncols = ncols m,
      px = (\<lambda>i j. if px m i j = 0 then 0 else if j = 0 then 1 else 2)\<rparr>"

definition scan_ex :: scan_file where
  "scan_ex =
     \<lparr>has_exif = True, x_resolution = 300, y_resolution = 300,
      gray = \<lparr>nrows = 1, ncols = 3, px = (\<lambda>i j. if j = 1 then 255 else 0)\<rparr>\<rparr>"

definition self_ex :: EstimateLeafArea where
  "self_ex =
     \<lparr>red_scale = 0, red_scale_pixels = 0, mask_pixels = 0, mask_scale = 0,
      mask_offset_y = 0, mask_offset_x = 0, threshold = 120, cut_off = 1,
      output_dir = ''out'', crop = 0, combine = True, res = 0, workers = 1\<rparr>"

definition self_neg :: EstimateLeafArea where
  "self_neg = self_ex\<lparr>res := - 300\<rparr>"

definition scan_600 :: scan_file where
  "scan_600 = scan_ex\<lparr>x_resolution := 600, y_resolution := 600\<rparr>"

definition scan_no_exif :: scan_file where
  "scan_no_exif = scan_ex\<lparr>has_exif := False\<rparr>"

definition flat_image :: "nat \<Rightarrow> nat \<Rightarrow> uint8 \<Rightarrow> bgr_image" where
  "flat_image h w v = \<lparr>shape0 = h, shape1 = w, shape2 = 3, sample = (\<lambda>i j c. v)\<rparr>"

definition env_ex :: "bgr_image \<Rightarrow> bool \<Rightarrow> os_env" where
  "env_ex scan ok = \<lparr>expanduser = (\<lambda>p. p), makedirs_ok = (\<lambda>p. ok), imread = (\<lambda>p. scan)\<rparr>"

definition self_pre :: EstimateLeafArea where
  "self_pre =
     \<lparr>red_scale = 0, red_scale_pixels = 0, mask_pixels = 0, mask_scale = 0,
      mask_offset_y = 0, mask_offset_x = 0, threshold = 120, cut_off = 10000,
      output_dir = ''out'', crop = 0, combine = True, res = 0, workers = 1\<rparr>"

definition self_mask :: EstimateLeafArea where
  "self_mask = self_pre\<lparr>mask_offset_y := 990, mask_pixels := 50\<rparr>"

definition self_window :: EstimateLeafArea where
  "self_window = self_pre\<lparr>mask_scale := 7, mask_offset_y := 1, mask_offset_x := 1, mask_pixels := 2\<rparr>"

section \<open>Evaluation of the concrete inputs\<close>

lemma ravel_ex: "ravel (label_ex (cv2_threshold_binary_inv (gray scan_ex) 120 255)) = [1, 0, 2]"
  by (simp add: ravel_def label_ex_def cv2_threshold_binary_inv_def scan_ex_def upt_rec)

lemma filter_ex: "filter_regions 1 (np_unique [1, 0, 2]) = Inr [1, 1]"
  by (simp add: filter_regions_def np_unique_def mask_assign_def bool_index_def)

lemma dbl_max_pos: "0 < dbl_max"
  by (simp add: dbl_max_def)



lemma convert_areas_300: "convert_areas 300 [1, 1] = Inr [Fin (16129 / 225000000), Fin (16129 / 225000000)]"
  by (simp add: convert_areas_def to_double_def dbl_max_def)

lemma convert_areas_neg_300: "convert_areas (- 300) [1, 1] = Inr [Fin (16129 / 225000000), Fin (16129 / 225000000)]"
  by (simp add: convert_areas_def to_double_def dbl_max_def)

lemma convert_areas_600: "convert_areas 600 [1, 1] = Inr [Fin (16129 / 900000000), Fin (16129 / 900000000)]"
  by (simp add: convert_areas_def to_double_def dbl_max_def)

section \<open>Segmentation\<close>

text \<open>
  C1 (as stated): a pixel is foreground exactly when its intensity is strictly below the
  threshold. A sample equal to the threshold is not greater than it, so
  \<open>THRESH_BINARY_INV\<close> gives it 255 and it is foreground: at threshold 120 the sample 120
  is foreground although it is not below 120.
\<close>

theorem segment_at_threshold_counterexample:
  "\<not> isl (segment 120 gray_120)
   \<and> foreground (projr (segment 120 gray_120)) 0 0
   \<and> \<not> uint (px gray_120 0 0) < 120"
  by (simp add: segment_def cv2_threshold_binary_inv_def foreground_def gray_120_def)

text \<open>
  C1 (amended): for every grayscale image and every threshold \<open>t\<close> in \<open>[0, 255]\<close> the
  segmentation succeeds, keeps the shape, and classifies a pixel as foreground exactly when
  its intensity is at or below \<open>t\<close> and as background exactly when it is above \<open>t\<close>;
  consequently an all-white image has no foreground for every \<open>t < 255\<close>.
\<close>

theorem segment_foreground_at_or_below:
  assumes "0 \<le> t" and "t \<le> 255"
  shows "\<exists>m. segment t g = Inr m
           \<and> nrows m = nrows g \<and> ncols m = ncols g
           \<and> (\<forall>i j. foreground m i j \<longleftrightarrow> uint (px g i j) \<le> t)
           \<and> (\<forall>i j. \<not> foreground m i j \<longleftrightarrow> t < uint (px g i j))
           \<and> (t < 255 \<and> (\<forall>i < nrows g. \<forall>j < ncols g. px g i j = 255)
                \<longrightarrow> (\<forall>i < nrows g. \<forall>j < ncols g. \<not> foreground m i j))"
  using assms
  by (auto simp: segment_def cv2_threshold_binary_inv_def foreground_def)

theorem segment_foreground_at_or_below_witness:
  "(0::int) \<le> 120 \<and> (120::int) \<le> 255
   \<and> \<not> isl (segment 120 white_2x2)
   \<and> \<not> foreground (projr (segment 120 white_2x2)) 0 0
   \<and> \<not> foreground (projr (segment 120 white_2x2)) 1 1
   \<and> foreground (projr (segment 120 gray_120)) 0 0"
  using segment_foreground_at_or_below [of 120 white_2x2]
        segment_foreground_at_or_below [of 120 gray_120]
  by (auto simp: white_2x2_def gray_120_def)

lemma estimate_ex_rows:
  "fst (estimate_file label_ex xu (self_ex\<lparr>combine := False\<rparr>) ''leaf.jpg'' scan_ex) =
     Inr [(''leaf.jpg'', Fin (16129 / 225000000)), (''leaf.jpg'', Fin (16129 / 225000000))]"
  using ravel_ex filter_ex convert_areas_300
  by (simp add: estimate_file_def read_resolution_def segment_def self_ex_def scan_ex_def)

section \<open>Filtering of the regions\<close>

lemma bool_index_filter:
  "bool_index (map f u)
     (mask_assign
        (mask_assign (replicate (length u) True) (map (\<lambda>c. c < (k::int)) (map f u)) False)
        (map (\<lambda>l. l = (0::int)) u) False)
   = map f (filter (\<lambda>l. l \<noteq> 0 \<and> k \<le> f l) u)"
  by (induction u) (auto simp: bool_index_def mask_assign_def)

lemma read_resolution_fields:
  "read_resolution self f = Inr self1 \<Longrightarrow>
     threshold self1 = threshold self \<and> cut_off self1 = cut_off self
     \<and> combine self1 = combine self \<and> output_dir self1 = output_dir self"
  by (auto simp: read_resolution_def split: if_splits)

lemma filter_regions_np_unique:
  "0 \<le> c \<Longrightarrow>
     filter_regions c (np_unique ls) =
       Inr (map (\<lambda>l. int (count_list ls l))
              (filter (\<lambda>l. l \<noteq> 0 \<and> c \<le> int (count_list ls l)) (sort (remdups ls))))"
  using bool_index_filter [of "\<lambda>l. int (count_list ls l)" "sort (remdups ls)" c]
  by (simp add: filter_regions_def np_unique_def Let_def)

lemma estimate_file_result:
  assumes "read_resolution self f = Inr self1"
    and "0 \<le> threshold self" and "threshold self \<le> 255"
    and "filter_regions (cut_off self)
           (np_unique (ravel (label (cv2_threshold_binary_inv (gray f) (threshold self) 255)))) = Inr counts"
  shows "fst (estimate_file label xu self img f) =
           (case convert_areas (res self1) counts of
              Inl e \<Rightarrow> Inl e
            | Inr areas \<Rightarrow> Inr (if combine self then [(img, np_sum areas)]
                                else map (\<lambda>a. (img, a)) areas))"
  using assms read_resolution_fields [OF assms(1)]
  by (simp add: estimate_file_def segment_def Let_def split: sum.splits)

text \<open>
  C2: for every label map (flattened to \<open>ls\<close>) and every cut-off \<open>c \<ge> 0\<close> the filtered
  records are the pixel counts, unchanged and in the order of their labels, of exactly the
  labels other than 0 whose count is at least \<open>c\<close>: the background label and every region
  of fewer than \<open>c\<close> pixels are left out. For every negative cut-off the filtering step
  fails with \<open>InvalidCutoff\<close>, and so does \<open>estimate\<close> once the resolution and the
  threshold have passed their checks. With a cut-off \<open>\<ge> 0\<close>, what \<open>estimate\<close> returns
  is the conversion of exactly these surviving counts of the label map \<open>lm\<close> of its scan:
  one row per surviving region, or one row with their sum.
\<close>

theorem filter_regions_keeps_large_foreground:
  "(c < 0 \<longrightarrow> filter_regions c leaflets = Inl InvalidCutoff)
   \<and> (0 \<le> c \<longrightarrow>
        filter_regions c (np_unique ls) =
          Inr (map (\<lambda>l. int (count_list ls l))
                 (filter (\<lambda>l. l \<noteq> 0 \<and> c \<le> int (count_list ls l)) (sort (remdups ls)))))
   \<and> (read_resolution self f = Inr self1 \<and> 0 \<le> threshold self \<and> threshold self \<le> 255
        \<and> cut_off self < 0 \<longrightarrow>
        fst (estimate_file label xu self img f) = Inl InvalidCutoff)
   \<and> (read_resolution self f = Inr self1 \<and> 0 \<le> threshold self \<and> threshold self \<le> 255
        \<and> 0 \<le> cut_off self
        \<and> lm = ravel (label (cv2_threshold_binary_inv (gray f) (threshold self) 255)) \<longrightarrow>
        fst (estimate_file label xu self img f) =
          (case convert_areas (res self1)
                  (map (\<lambda>l. int (count_list lm l))
                     (filter (\<lambda>l. l \<noteq> 0 \<and> cut_off self \<le> int (count_list lm l))
                        (sort (remdups lm)))) of
             Inl e \<Rightarrow> Inl e
           | Inr areas \<Rightarrow> Inr (if combine self then [(img, np_sum areas)]
                               else map (\<lambda>a. (img, a)) areas)))"
proof -
  have "filter_regions c leaflets = Inl InvalidCutoff" if "c < 0"
    using that by (simp add: filter_regions_def)
  moreover have "filter_regions c (np_unique ls) =
          Inr (map (\<lambda>l. int (count_list ls l))
                 (filter (\<lambda>l. l \<noteq> 0 \<and> c \<le> int (count_list ls l)) (sort (remdups ls))))"
    if "0 \<le> c"
    using that by (rule filter_regions_np_unique)
  moreover have "fst (estimate_file label xu self img f) = Inl InvalidCutoff"
    if "read_resolution self f = Inr self1" "0 \<le> threshold self" "threshold self \<le> 255"
       "cut_off self < 0"
    using that read_resolution_fields [OF that(1)]
    by (simp add: estimate_file_def segment_def filter_regions_def)
  moreover have "fst (estimate_file label xu self img f) =
          (case convert_areas (res self1)
                  (map (\<lambda>l. int (count_list lm l))
                     (filter (\<lambda>l. l \<noteq> 0 \<and> cut_off self \<le> int (count_list lm l))
                        (sort (remdups lm)))) of
             Inl e \<Rightarrow> Inl e
           | Inr areas \<Rightarrow> Inr (if combine self then [(img, np_sum areas)]
                               else map (\<lambda>a. (img, a)) areas))"
    if "read_resolution self f = Inr self1" "0 \<le> threshold self" "threshold self \<le> 255"
       "0 \<le> cut_off self"
       "lm = ravel (label (cv2_threshold_binary_inv (gray f) (threshold self) 255))"
    using estimate_file_result [OF that(1) that(2) that(3), of label _ xu img]
          filter_regions_np_unique [OF that(4), of lm] that(5)
    by simp
  ultimately show ?thesis by blast
qed

theorem filter_regions_keeps_large_foreground_witness:
  "filter_regions (- 1) ([0, 1], [3, 2]) = Inl InvalidCutoff
   \<and> filter_regions 2 (np_unique [0, 1, 0, 2, 1, 0]) = Inr [2]
   \<and> fst (estimate_file label_ex id (self_neg\<lparr>cut_off := - 1\<rparr>) ''leaf.jpg'' scan_ex) = Inl InvalidCutoff
   \<and> read_resolution self_neg scan_ex = Inr self_neg
   \<and> 0 \<le> threshold self_neg \<and> threshold self_neg \<le> 255 \<and> 0 \<le> cut_off self_neg
   \<and> fst (estimate_file label_ex id self_neg ''leaf.jpg'' scan_ex) =
       Inr [(''leaf.jpg'', np_sum [Fin (16129 / 225000000), Fin (16129 / 225000000)])]"
  using filter_regions_keeps_large_foreground
          [where c = "- 1" and leaflets = "([0, 1], [3, 2])" and ls = "[]" and self = self_neg
             and f = scan_ex and ?self1.0 = self_neg and lm = "[1, 0, 2]" and label = label_ex
             and xu = id and img = "''leaf.jpg''"]
        filter_regions_keeps_large_foreground
          [where c = 2 and leaflets = "([], [])" and ls = "[0, 1, 0, 2, 1, 0]"
             and self = "self_neg\<lparr>cut_off := - 1\<rparr>" and f = scan_ex
             and ?self1.0 = "self_neg\<lparr>cut_off := - 1\<rparr>" and lm = "[]" and label = label_ex
             and xu = id and img = "''leaf.jpg''"]
        ravel_ex convert_areas_neg_300
  by (simp add: read_resolution_def self_neg_def self_ex_def scan_ex_def)

section \<open>Area conversion\<close>




section \<open>Aggregation\<close>

lemma np_sum_Fin: "foldl np_add (Fin a) (map Fin xs) = Fin (a + sum_list xs)"
  by (induction xs arbitrary: a) (simp_all add: add.assoc)

text \<open>
  C4: for one image file and one configuration, when the call with \<open>combine = False\<close>
  returns the rows \<open>rows\<close>, the call with \<open>combine = True\<close> returns the single row of that
  file whose area is the sum of the areas of \<open>rows\<close>; the sum is 0 when no region
  survived, and it is the sum of the reals when every area is finite. When the first call
  raises, the second raises the same error. The sums are exact, so the two sides are equal
  and not only close.
\<close>

theorem combine_row_is_sum_of_region_rows:
  "(fst (estimate_file label xu (self\<lparr>combine := False\<rparr>) img f) = Inr rows \<longrightarrow>
      fst (estimate_file label xu (self\<lparr>combine := True\<rparr>) img f) = Inr [(img, np_sum (map snd rows))]
      \<and> (rows = [] \<longrightarrow> np_sum (map snd rows) = Fin 0)
      \<and> (\<forall>as. map snd rows = map Fin as \<longrightarrow> np_sum (map snd rows) = Fin (sum_list as)))
   \<and> (fst (estimate_file label xu (self\<lparr>combine := False\<rparr>) img f) = Inl e \<longrightarrow>
      fst (estimate_file label xu (self\<lparr>combine := True\<rparr>) img f) = Inl e)"
  by (auto simp: estimate_file_def read_resolution_def Let_def np_sum_def np_sum_Fin comp_def
           split: sum.splits if_splits)

theorem combine_row_is_sum_of_region_rows_witness:
  "fst (estimate_file label_ex id (self_ex\<lparr>combine := False\<rparr>) ''leaf.jpg'' scan_ex) =
     Inr [(''leaf.jpg'', Fin (16129 / 225000000)), (''leaf.jpg'', Fin (16129 / 225000000))]
   \<and> fst (estimate_file label_ex id (self_ex\<lparr>combine := True\<rparr>) ''leaf.jpg'' scan_ex) =
     Inr [(''leaf.jpg'', Fin (16129 / 225000000 + 16129 / 225000000))]"
  using combine_row_is_sum_of_region_rows
          [of label_ex id self_ex "''leaf.jpg''" scan_ex
              "[(''leaf.jpg'', Fin (16129 / 225000000)), (''leaf.jpg'', Fin (16129 / 225000000))]"]
        estimate_ex_rows [of id]
  by (simp add: np_sum_def)

section \<open>Resolution\<close>




section \<open>The configuration across calls of estimate\<close>

text \<open>
  What a call leaves in \<open>self\<close>: line 75 is its only write.
\<close>

lemma estimate_file_self:
  "fst (snd (estimate_file label xu self img f)) =
     (if res self = 0 \<and> has_exif f \<and> x_resolution f = y_resolution f
      then self\<lparr>res := x_resolution f\<rparr> else self)"
  by (auto simp: estimate_file_def read_resolution_def Let_def split: sum.splits if_splits)

lemma ravel_ex_more:
  "ravel (label_ex (cv2_threshold_binary_inv (gray scan_600) 120 255)) = [1, 0, 2]"
  "ravel (label_ex (cv2_threshold_binary_inv (gray scan_no_exif) 120 255)) = [1, 0, 2]"
  using ravel_ex by (simp_all add: scan_600_def scan_no_exif_def)

text \<open>
  C9: every field of the configuration, the resolution override in particular, holds the
  same value after an estimate call as before it. The code does otherwise: with the
  override 0 (read the resolution from each file) a call on a file of 300 dpi stores 300 in
  \<open>self.res\<close>, and the next call on the same object no longer reads its file. A file of
  600 dpi is then measured at 300 dpi, four times the area it has on a fresh configuration,
  and a file without metadata is measured at 300 dpi instead of being refused.
\<close>

theorem estimate_reuses_stored_resolution:
  "res self_ex = 0
   \<and> fst (snd (estimate_file label_ex id self_ex ''a.jpg'' scan_ex)) = self_ex\<lparr>res := 300\<rparr>
   \<and> fst (estimate_file label_ex id (fst (snd (estimate_file label_ex id self_ex ''a.jpg'' scan_ex)))
             ''b.jpg'' scan_600)
       = Inr [(''b.jpg'', Fin (16129 / 112500000))]
   \<and> fst (estimate_file label_ex id self_ex ''b.jpg'' scan_600)
       = Inr [(''b.jpg'', Fin (16129 / 450000000))]
   \<and> fst (estimate_file label_ex id (fst (snd (estimate_file label_ex id self_ex ''a.jpg'' scan_ex)))
             ''c.jpg'' scan_no_exif)
       = Inr [(''c.jpg'', Fin (16129 / 112500000))]
   \<and> fst (estimate_file label_ex id self_ex ''c.jpg'' scan_no_exif) = Inl MissingMetadata"
proof -
  have a: "fst (snd (estimate_file label_ex id self_ex ''a.jpg'' scan_ex)) = self_ex\<lparr>res := 300\<rparr>"
    by (simp add: estimate_file_self self_ex_def scan_ex_def)
  show ?thesis
    unfolding a
    using ravel_ex ravel_ex_more filter_ex convert_areas_300 convert_areas_600
    by (simp add: estimate_file_def read_resolution_def segment_def self_ex_def scan_ex_def
          scan_600_def scan_no_exif_def np_sum_def)
qed

lemma path_split_ex:
  "path_split ''scans/leaf.png'' = (''scans'', ''leaf.png'')"
  "path_split ''out/leaf.png'' = (''out'', ''leaf.png'')"
  "path_split ''leaf.jpg'' = ([], ''leaf.jpg'')"
  by (simp_all add: path_split_def)

section \<open>Cropping\<close>

lemma slice_index_nonneg: "0 \<le> i \<Longrightarrow> slice_index n i = min (nat i) n"
  by (simp add: slice_index_def)

text \<open>
  What the crop step does on each side of its guard: up to half of both dimensions it
  returns the middle of the array, a negative margin is refused, and so is a margin larger
  than a whole dimension.
\<close>

lemma crop_step_dims:
  assumes "shape0 scan = h" and "shape1 scan = w"
    and "crop self = k" and "0 \<le> k" and "2 * k \<le> int h" and "2 * k \<le> int w"
  shows "\<exists>s. crop_step self (h, w) scan = Inr s
           \<and> int (shape0 s) = int h - 2 * k \<and> int (shape1 s) = int w - 2 * k
           \<and> shape2 s = shape2 scan
           \<and> (\<forall>i j c. sample s i j c = sample scan (nat k + i) (nat k + j) c)"
  using assms
  by (auto simp: crop_step_def slice2_def slice_len_def slice_index_nonneg min_def)

lemma crop_step_negative: "crop self < 0 \<Longrightarrow> crop_step self dims scan = Inl NegativeCrop"
  by (simp add: crop_step_def)

lemma crop_step_exceeds:
  "0 \<le> crop self \<Longrightarrow> int h < crop self \<or> int w < crop self \<Longrightarrow>
     crop_step self (h, w) scan = Inl CropExceedsBounds"
  by (auto simp: crop_step_def)

lemma crop_step_beyond_half:
  assumes "shape0 scan = h" and "shape1 scan = w"
    and "crop self = k" and "int h < 2 * k \<or> int w < 2 * k" and "k \<le> int h" and "k \<le> int w"
  shows "\<exists>s. crop_step self (h, w) scan = Inr s \<and> (shape0 s = 0 \<or> shape1 s = 0)"
  using assms
  by (auto simp: crop_step_def slice2_def slice_len_def slice_index_nonneg min_def)

text \<open>
  C6: cropping by \<open>k\<close> fails with \<open>CropExceedsBounds\<close> whenever \<open>k\<close> exceeds half of
  either dimension. The guard of line 162 compares the margin with the whole dimension:
  on a scan of 10 by 10 pixels the margin 6 passes it, the slice \<open>6:4\<close> selects nothing on
  either axis, and \<open>preprocess\<close> goes on with an array of no rows and no columns instead
  of raising \<open>CropExceedsBounds\<close>.
\<close>

theorem crop_beyond_half_not_rejected:
  "crop_step (self_pre\<lparr>crop := 6\<rparr>) (10, 10) (flat_image 10 10 0)
     = Inr (slice2 (flat_image 10 10 0) 6 4 6 4)
   \<and> shape0 (slice2 (flat_image 10 10 0) 6 4 6 4) = 0
   \<and> shape1 (slice2 (flat_image 10 10 0) 6 4 6 4) = 0
   \<and> fst (preprocess_file (env_ex (flat_image 10 10 0) True) (self_pre\<lparr>crop := 6\<rparr>) ''scans/leaf.png'')
       \<noteq> Inl CropExceedsBounds"
  by (simp add: crop_step_def self_pre_def slice2_def slice_len_def slice_index_def flat_image_def
        preprocess_file_def env_ex_def path_split_ex mask_step_def red_scale_step_def empty_image_def)

section \<open>Source and destination\<close>

text \<open>
  For a non-empty output directory the comparison of line 150 is the first thing the call
  does: nothing is made, read or written before it raises.
\<close>

lemma identical_source_destination:
  assumes "output_dir self \<noteq> []" and "fst (path_split img) = output_dir self"
  shows "preprocess_file env self img = (Inl IdenticalSourceDestination, [])"
  using assms by (simp add: preprocess_file_def)

text \<open>
  C8: when the parent directory of the file equals the configured output directory,
  \<open>preprocess\<close> fails with \<open>IdenticalSourceDestination\<close> and leaves the file system
  unchanged. For the file \<open>leaf.jpg\<close> and an empty \<open>output_dir\<close> the two are equal, and
  the code does otherwise: lines 146 to 148 mean to fall back on a default directory, but put
  its name in a local variable that nothing reads, so \<open>os.makedirs\<close> runs on
  \<open>/preprocessed\<close> before the comparison of line 150. Either the directory is made and
  the call then raises \<open>IdenticalSourceDestination\<close>, or \<open>os.makedirs\<close> raises itself.
\<close>

theorem empty_output_dir_makes_directory:
  "fst (path_split ''leaf.jpg'') = output_dir (self_pre\<lparr>output_dir := []\<rparr>)
   \<and> preprocess_file (env_ex (flat_image 10 10 0) True) (self_pre\<lparr>output_dir := []\<rparr>) ''leaf.jpg''
       = (Inl IdenticalSourceDestination, [MakeDirs ''/preprocessed''])
   \<and> preprocess_file (env_ex (flat_image 10 10 0) False) (self_pre\<lparr>output_dir := []\<rparr>) ''leaf.jpg''
       = (Inl OSError, [])
   \<and> preprocess_file (env_ex (flat_image 10 10 0) True) self_pre ''out/leaf.png''
       = (Inl IdenticalSourceDestination, [])"
  by (simp add: self_pre_def preprocess_file_def env_ex_def path_split_ex)

section \<open>Scale masking\<close>




lemma in_slice_nonneg:
  "0 \<le> lo \<Longrightarrow> 0 \<le> hi \<Longrightarrow> i < n \<Longrightarrow> in_slice n lo hi i \<longleftrightarrow> lo \<le> int i \<and> int i < hi"
  by (auto simp: in_slice_def slice_index_nonneg)

lemma mask_step_window:
  assumes "mask_step self dims scan = Inr scan'" and "mask_scale self \<noteq> 0"
  shows "shape0 scan' = shape0 scan \<and> shape1 scan' = shape1 scan \<and> shape2 scan' = shape2 scan
         \<and> (\<forall>i j c. i < shape0 scan \<and> j < shape1 scan \<and> c < 3 \<longrightarrow>
              sample scan' i j c =
                (if mask_offset_y self \<le> int i \<and> int i < mask_offset_y self + mask_pixels self
                    \<and> mask_offset_x self \<le> int j \<and> int j < mask_offset_x self + mask_pixels self
                 then 255 else sample scan i j c))"
proof -
  have nn: "0 \<le> mask_offset_y self" "0 \<le> mask_offset_x self" "0 \<le> mask_pixels self"
    using assms by (auto simp: mask_step_def split: if_splits)
  have eq: "scan' =
      assign_window (assign_window (assign_window scan
        (mask_offset_y self) (mask_offset_y self + mask_pixels self)
        (mask_offset_x self) (mask_offset_x self + mask_pixels self) 0 255)
        (mask_offset_y self) (mask_offset_y self + mask_pixels self)
        (mask_offset_x self) (mask_offset_x self + mask_pixels self) 1 255)
        (mask_offset_y self) (mask_offset_y self + mask_pixels self)
        (mask_offset_x self) (mask_offset_x self + mask_pixels self) 2 255"
    using assms by (auto simp: mask_step_def Let_def split: if_splits)
  show ?thesis
    unfolding eq using nn
    by (auto simp: assign_window_def in_slice_nonneg)
qed

lemma preprocess_file_cong:
  assumes "output_dir a = output_dir b" and "crop_step a = crop_step b"
    and "mask_step a = mask_step b" and "red_scale_step a = red_scale_step b"
  shows "preprocess_file env a img = preprocess_file env b img"
  unfolding preprocess_file_def assms ..

lemma crop_step_cong: "crop a = crop b \<Longrightarrow> crop_step a = crop_step b"
  by (intro ext) (simp add: crop_step_def)

lemma red_scale_step_cong:
  "red_scale a = red_scale b \<Longrightarrow> red_scale_pixels a = red_scale_pixels b \<Longrightarrow>
     red_scale_step a = red_scale_step b"
  by (intro ext) (simp add: red_scale_step_def)

lemma mask_step_off: "mask_scale a = 0 \<Longrightarrow> mask_step a = (\<lambda>dims scan. Inr scan)"
  by (intro ext) (simp add: mask_step_def)

lemma mask_step_cong:
  "mask_scale a \<noteq> 0 \<Longrightarrow> mask_scale b \<noteq> 0 \<Longrightarrow> mask_offset_y a = mask_offset_y b \<Longrightarrow>
     mask_offset_x a = mask_offset_x b \<Longrightarrow> mask_pixels a = mask_pixels b \<Longrightarrow>
     mask_step a = mask_step b"
  by (intro ext) (simp add: mask_step_def)

lemma preprocess_file_no_mask_error:
  assumes "mask_scale self = 0"
  shows "fst (preprocess_file env self img) \<noteq> Inl NegativeMaskParameter"
    and "fst (preprocess_file env self img) \<noteq> Inl MaskExceedsBounds"
  using assms
  by (auto simp: preprocess_file_def mask_step_off crop_step_def red_scale_step_def Let_def
           split: sum.splits if_splits)

lemma preprocess_file_writes:
  assumes "output_dir self \<noteq> []" and "fst (path_split img) \<noteq> output_dir self"
    and "crop_step self (shape0 (imread env (expanduser env img)), shape1 (imread env (expanduser env img)))
           (imread env (expanduser env img)) = Inr s1"
    and "mask_step self (shape0 (imread env (expanduser env img)), shape1 (imread env (expanduser env img)))
           s1 = Inr s2"
    and "red_scale_step self (shape0 (imread env (expanduser env img)), shape1 (imread env (expanduser env img)))
           s2 = Inr s3"
    and "\<not> empty_image s3"
  shows "preprocess_file env self img =
           (Inr (), [ImRead (expanduser env img),
                     ImWrite (path_join (expanduser env (output_dir self))
                                (splitext_root (basename img) @ ''.jpg'')) s3])"
  using assms by (simp add: preprocess_file_def Let_def)

text \<open>
  C10: with \<open>mask_scale = 0\<close> the masking step is the identity on the image, whatever
  \<open>mask_offset_x\<close>, \<open>mask_offset_y\<close> and \<open>mask_pixels\<close> are: \<open>preprocess\<close> raises neither
  \<open>NegativeMaskParameter\<close> nor \<open>MaskExceedsBounds\<close>, does the same as with any other
  values \<open>ox\<close>, \<open>oy\<close>, \<open>mp\<close> of the three, and the image it writes is the cropped image
  with the scale bar, no sample of it whitened. With \<open>mask_scale\<close> nonzero its value is not
  used: any other nonzero value \<open>s\<close> gives the same call; when the step succeeds the
  whitened samples are those of the rows from \<open>mask_offset_y\<close> and the columns from
  \<open>mask_offset_x\<close>, \<open>mask_pixels\<close> of each, in all three channels, and the image that
  \<open>preprocess\<close> writes is the one this step returned, with the scale bar.
\<close>

theorem mask_scale_gates_masking:
  "(mask_scale self = 0 \<longrightarrow>
      fst (preprocess_file env self img) \<noteq> Inl NegativeMaskParameter
      \<and> fst (preprocess_file env self img) \<noteq> Inl MaskExceedsBounds
      \<and> mask_step self dims scan = Inr scan
      \<and> preprocess_file env (self\<lparr>mask_offset_x := ox, mask_offset_y := oy, mask_pixels := mp\<rparr>) img
          = preprocess_file env self img)
   \<and> (mask_scale self \<noteq> 0 \<longrightarrow>
      (s \<noteq> 0 \<longrightarrow> preprocess_file env (self\<lparr>mask_scale := s\<rparr>) img = preprocess_file env self img)
      \<and> (\<forall>scan'. mask_step self dims scan = Inr scan' \<longrightarrow>
            shape0 scan' = shape0 scan \<and> shape1 scan' = shape1 scan \<and> shape2 scan' = shape2 scan
            \<and> (\<forall>i j c. i < shape0 scan \<and> j < shape1 scan \<and> c < 3 \<longrightarrow>
                 sample scan' i j c =
                   (if mask_offset_y self \<le> int i \<and> int i < mask_offset_y self + mask_pixels self
                       \<and> mask_offset_x self \<le> int j \<and> int j < mask_offset_x self + mask_pixels self
                    then 255 else sample scan i j c))))
   \<and> (mask_scale self = 0
        \<and> output_dir self \<noteq> [] \<and> fst (path_split img) \<noteq> output_dir self
        \<and> crop_step self (shape0 (imread env (expanduser env img)), shape1 (imread env (expanduser env img)))
              (imread env (expanduser env img)) = Inr s1
        \<and> red_scale_step self (shape0 (imread env (expanduser env img)), shape1 (imread env (expanduser env img)))
              s1 = Inr s3
        \<and> \<not> empty_image s3 \<longrightarrow>
        preprocess_file env self img =
          (Inr (), [ImRead (expanduser env img),
                    ImWrite (path_join (expanduser env (output_dir self))
                               (splitext_root (basename img) @ ''.jpg'')) s3]))
   \<and> (mask_scale self \<noteq> 0
        \<and> output_dir self \<noteq> [] \<and> fst (path_split img) \<noteq> output_dir self
        \<and> crop_step self (shape0 (imread env (expanduser env img)), shape1 (imread env (expanduser env img)))
              (imread env (expanduser env img)) = Inr s1
        \<and> mask_step self (shape0 (imread env (expanduser env img)), shape1 (imread env (expanduser env img)))
              s1 = Inr s2
        \<and> red_scale_step self (shape0 (imread env (expanduser env img)), shape1 (imread env (expanduser env img)))
              s2 = Inr s3
        \<and> \<not> empty_image s3 \<longrightarrow>
        preprocess_file env self img =
          (Inr (), [ImRead (expanduser env img),
                    ImWrite (path_join (expanduser env (output_dir self))
                               (splitext_root (basename img) @ ''.jpg'')) s3]))"
proof -
  have off: "fst (preprocess_file env self img) \<noteq> Inl NegativeMaskParameter
      \<and> fst (preprocess_file env self img) \<noteq> Inl MaskExceedsBounds
      \<and> mask_step self dims scan = Inr scan
      \<and> preprocess_file env (self\<lparr>mask_offset_x := ox, mask_offset_y := oy, mask_pixels := mp\<rparr>) img
          = preprocess_file env self img"
    if z: "mask_scale self = 0"
  proof (intro conjI)
    show "fst (preprocess_file env self img) \<noteq> Inl NegativeMaskParameter"
      using z by (rule preprocess_file_no_mask_error)
    show "fst (preprocess_file env self img) \<noteq> Inl MaskExceedsBounds"
      using z by (rule preprocess_file_no_mask_error)
    show "mask_step self dims scan = Inr scan"
      using z by (simp add: mask_step_def)
    show "preprocess_file env (self\<lparr>mask_offset_x := ox, mask_offset_y := oy, mask_pixels := mp\<rparr>) img
            = preprocess_file env self img"
      using z
      by (intro preprocess_file_cong crop_step_cong red_scale_step_cong) (simp_all add: mask_step_off)
  qed
  have on: "(s \<noteq> 0 \<longrightarrow> preprocess_file env (self\<lparr>mask_scale := s\<rparr>) img = preprocess_file env self img)
      \<and> (\<forall>scan'. mask_step self dims scan = Inr scan' \<longrightarrow>
            shape0 scan' = shape0 scan \<and> shape1 scan' = shape1 scan \<and> shape2 scan' = shape2 scan
            \<and> (\<forall>i j c. i < shape0 scan \<and> j < shape1 scan \<and> c < 3 \<longrightarrow>
                 sample scan' i j c =
                   (if mask_offset_y self \<le> int i \<and> int i < mask_offset_y self + mask_pixels self
                       \<and> mask_offset_x self \<le> int j \<and> int j < mask_offset_x self + mask_pixels self
                    then 255 else sample scan i j c)))"
    if nz: "mask_scale self \<noteq> 0"
  proof (intro conjI impI allI)
    assume "s \<noteq> 0"
    with nz show "preprocess_file env (self\<lparr>mask_scale := s\<rparr>) img = preprocess_file env self img"
      by (intro preprocess_file_cong crop_step_cong red_scale_step_cong mask_step_cong) simp_all
  next
    fix scan'
    assume h: "mask_step self dims scan = Inr scan'"
    from mask_step_window [OF h nz]
    show "shape0 scan' = shape0 scan" "shape1 scan' = shape1 scan" "shape2 scan' = shape2 scan"
      by simp_all
    fix i j :: nat and c :: nat
    assume "i < shape0 scan \<and> j < shape1 scan \<and> c < 3"
    with mask_step_window [OF h nz]
    show "sample scan' i j c =
            (if mask_offset_y self \<le> int i \<and> int i < mask_offset_y self + mask_pixels self
                \<and> mask_offset_x self \<le> int j \<and> int j < mask_offset_x self + mask_pixels self
             then 255 else sample scan i j c)"
      by blast
  qed
  have wr0: "preprocess_file env self img =
          (Inr (), [ImRead (expanduser env img),
                    ImWrite (path_join (expanduser env (output_dir self))
                               (splitext_root (basename img) @ ''.jpg'')) s3])"
    if "mask_scale self = 0" "output_dir self \<noteq> []" "fst (path_split img) \<noteq> output_dir self"
       "crop_step self (shape0 (imread env (expanduser env img)), shape1 (imread env (expanduser env img)))
              (imread env (expanduser env img)) = Inr s1"
       "red_scale_step self (shape0 (imread env (expanduser env img)), shape1 (imread env (expanduser env img)))
              s1 = Inr s3"
       "\<not> empty_image s3"
    using that by (intro preprocess_file_writes [where ?s1.0 = s1 and ?s2.0 = s1]) (simp_all add: mask_step_off)
  have wr1: "preprocess_file env self img =
          (Inr (), [ImRead (expanduser env img),
                    ImWrite (path_join (expanduser env (output_dir self))
                               (splitext_root (basename img) @ ''.jpg'')) s3])"
    if "output_dir self \<noteq> []" "fst (path_split img) \<noteq> output_dir self"
       "crop_step self (shape0 (imread env (expanduser env img)), shape1 (imread env (expanduser env img)))
              (imread env (expanduser env img)) = Inr s1"
       "mask_step self (shape0 (imread env (expanduser env img)), shape1 (imread env (expanduser env img)))
              s1 = Inr s2"
       "red_scale_step self (shape0 (imread env (expanduser env img)), shape1 (imread env (expanduser env img)))
              s2 = Inr s3"
       "\<not> empty_image s3"
    using that by (rule preprocess_file_writes)
  show ?thesis
    using off on wr0 wr1 by blast
qed

lemma out_name_ex: "path_join ''out'' (splitext_root (basename ''scans/leaf.png'') @ ''.jpg'') = ''out/leaf.jpg''"
  by (simp add: basename_def path_split_ex splitext_root_def path_join_def)

lemma pre_off_ex:
  "preprocess_file (env_ex (flat_image 4 4 0) True) (self_mask\<lparr>mask_offset_x := - 1\<rparr>) ''scans/leaf.png''
       = (Inr (), [ImRead ''scans/leaf.png'', ImWrite ''out/leaf.jpg'' (flat_image 4 4 0)])"
  using out_name_ex
  by (simp add: self_mask_def self_pre_def env_ex_def path_split_ex
        preprocess_file_def crop_step_def mask_step_def red_scale_step_def empty_image_def flat_image_def)

lemma mask_window_ex:
  "mask_step self_window (4, 4) (flat_image 4 4 0) =
     Inr (assign_window (assign_window (assign_window (flat_image 4 4 0) 1 3 1 3 0 255) 1 3 1 3 1 255) 1 3 1 3 2 255)"
  by (simp add: self_window_def self_pre_def mask_step_def)

lemma window_samples_ex:
  "sample (assign_window (assign_window (assign_window (flat_image 4 4 0) 1 3 1 3 0 255) 1 3 1 3 1 255) 1 3 1 3 2 255) 1 1 0 = 255"
  "sample (assign_window (assign_window (assign_window (flat_image 4 4 0) 1 3 1 3 0 255) 1 3 1 3 1 255) 1 3 1 3 2 255) 2 2 2 = 255"
  "sample (assign_window (assign_window (assign_window (flat_image 4 4 0) 1 3 1 3 0 255) 1 3 1 3 1 255) 1 3 1 3 2 255) 0 0 0 = 0"
  "sample (assign_window (assign_window (assign_window (flat_image 4 4 0) 1 3 1 3 0 255) 1 3 1 3 1 255) 1 3 1 3 2 255) 3 3 1 = 0"
  by (simp_all add: assign_window_def in_slice_def slice_index_def flat_image_def)

lemma steps_window_ex:
  "crop_step self_window (4, 4) (flat_image 4 4 0) = Inr (flat_image 4 4 0)"
  "red_scale_step self_window (4, 4) s = Inr s"
  "output_dir self_window = ''out''"
  by (simp_all add: self_window_def self_pre_def crop_step_def red_scale_step_def)

theorem mask_scale_gates_masking_witness:
  "mask_scale (self_mask\<lparr>mask_offset_x := - 1\<rparr>) = 0
   \<and> preprocess_file (env_ex (flat_image 4 4 0) True) (self_mask\<lparr>mask_offset_x := - 1\<rparr>) ''scans/leaf.png''
       = (Inr (), [ImRead ''scans/leaf.png'', ImWrite ''out/leaf.jpg'' (flat_image 4 4 0)])
   \<and> fst (preprocess_file (env_ex (flat_image 4 4 0) True) (self_mask\<lparr>mask_offset_x := - 1\<rparr>)
            ''scans/leaf.png'') \<noteq> Inl NegativeMaskParameter
   \<and> mask_scale self_window \<noteq> 0
   \<and> preprocess_file (env_ex (flat_image 4 4 0) True) (self_window\<lparr>mask_scale := 1\<rparr>) ''scans/leaf.png''
       = preprocess_file (env_ex (flat_image 4 4 0) True) self_window ''scans/leaf.png''
   \<and> preprocess_file (env_ex (flat_image 4 4 0) True) self_window ''scans/leaf.png''
       = (Inr (), [ImRead ''scans/leaf.png'',
                   ImWrite ''out/leaf.jpg'' (assign_window (assign_window (assign_window (flat_image 4 4 0) 1 3 1 3 0 255) 1 3 1 3 1 255) 1 3 1 3 2 255)])
   \<and> sample (assign_window (assign_window (assign_window (flat_image 4 4 0) 1 3 1 3 0 255) 1 3 1 3 1 255) 1 3 1 3 2 255) 1 1 0 = 255
   \<and> sample (assign_window (assign_window (assign_window (flat_image 4 4 0) 1 3 1 3 0 255) 1 3 1 3 1 255) 1 3 1 3 2 255) 2 2 2 = 255
   \<and> sample (assign_window (assign_window (assign_window (flat_image 4 4 0) 1 3 1 3 0 255) 1 3 1 3 1 255) 1 3 1 3 2 255) 0 0 0 = 0
   \<and> sample (assign_window (assign_window (assign_window (flat_image 4 4 0) 1 3 1 3 0 255) 1 3 1 3 1 255) 1 3 1 3 2 255) 3 3 1 = 0"
proof -
  have off: "mask_scale (self_mask\<lparr>mask_offset_x := - 1\<rparr>) = 0"
    by (simp add: self_mask_def self_pre_def)
  have on: "mask_scale self_window \<noteq> 0"
    by (simp add: self_window_def)
  note thm_on = mask_scale_gates_masking
            [where self = self_window and env = "env_ex (flat_image 4 4 0) True"
               and img = "''scans/leaf.png''" and dims = "(4, 4)" and scan = "flat_image 4 4 0"
               and ox = 0 and oy = 0 and mp = 0 and s = 1
               and ?s1.0 = "flat_image 4 4 0" and ?s2.0 = "(assign_window (assign_window (assign_window (flat_image 4 4 0) 1 3 1 3 0 255) 1 3 1 3 1 255) 1 3 1 3 2 255)" and ?s3.0 = "(assign_window (assign_window (assign_window (flat_image 4 4 0) 1 3 1 3 0 255) 1 3 1 3 1 255) 1 3 1 3 2 255)"]
  have same: "preprocess_file (env_ex (flat_image 4 4 0) True) (self_window\<lparr>mask_scale := 1\<rparr>) ''scans/leaf.png''
       = preprocess_file (env_ex (flat_image 4 4 0) True) self_window ''scans/leaf.png''"
    using thm_on [THEN conjunct2, THEN conjunct1, THEN mp, OF on, THEN conjunct1]
    by simp
  have wrote: "preprocess_file (env_ex (flat_image 4 4 0) True) self_window ''scans/leaf.png''
       = (Inr (), [ImRead ''scans/leaf.png'', ImWrite ''out/leaf.jpg'' (assign_window (assign_window (assign_window (flat_image 4 4 0) 1 3 1 3 0 255) 1 3 1 3 1 255) 1 3 1 3 2 255)])"
    using thm_on [THEN conjunct2, THEN conjunct2, THEN conjunct2]
          on steps_window_ex mask_window_ex out_name_ex
    by (simp add: env_ex_def flat_image_def path_split_ex empty_image_def assign_window_def)
  have quiet: "fst (preprocess_file (env_ex (flat_image 4 4 0) True) (self_mask\<lparr>mask_offset_x := - 1\<rparr>)
            ''scans/leaf.png'') \<noteq> Inl NegativeMaskParameter"
    using mask_scale_gates_masking
            [where self = "self_mask\<lparr>mask_offset_x := - 1\<rparr>" and env = "env_ex (flat_image 4 4 0) True"
               and img = "''scans/leaf.png''",
             THEN conjunct1, THEN mp, OF off, THEN conjunct1] .
  show ?thesis
    using off on same wrote quiet pre_off_ex window_samples_ex by simp
qed

end
